theory Spec2Isabelle
  imports Complex_Main
begin

section \<open>The Exodus reader of mooseherder\<close>

text \<open>
  A shallow embedding of \<^verbatim>\<open>src/mooseherder/exodusreader.py\<close>: the class
  \<^verbatim>\<open>ExodusReader\<close>, which reads the netCDF variables of an Exodus file and
  assembles them into a \<^verbatim>\<open>SimData\<close> record. Every method becomes a function
  of the opened dataset; every exception the Python can raise is a value
  \<open>Inl e\<close> of a sum type.
\<close>

subsection \<open>Errors\<close>

datatype py_error =
    FileNotFoundError
  | RuntimeError
  | IndexError
  | KeyError
  | TypeError
  | ValueError
  | AttributeError

subsection \<open>Numeric arrays\<close>

text \<open>
  A numpy array of floats, of one or two dimensions. \<open>Arr1 xs\<close> has shape
  \<open>(length xs,)\<close>; \<open>Arr2 c rows\<close> has shape \<open>(length rows, c)\<close>, every row
  of length \<open>c\<close> (the column count is kept apart, since an array of no rows
  still has a number of columns). The entries are floats that the reader only
  moves around and never computes with, so they are taken as reals.
\<close>

datatype ndarray = Arr1 "real list" | Arr2 nat "real list list"

fun shape0 :: "ndarray \<Rightarrow> nat" where
  "shape0 (Arr1 xs) = length xs"
| "shape0 (Arr2 c rows) = length rows"

text \<open>\<^verbatim>\<open>a.T\<close>: a one-dimensional array is its own transpose.\<close>

fun transposed :: "ndarray \<Rightarrow> ndarray" where
  "transposed (Arr1 xs) = Arr1 xs"
| "transposed (Arr2 c rows) = Arr2 (length rows) (map (\<lambda>j. map (\<lambda>r. r ! j) rows) [0..<c])"

text \<open>\<^verbatim>\<open>np.zeros([dim,])\<close>\<close>

definition np_zeros :: "nat \<Rightarrow> ndarray" where
  "np_zeros n = Arr1 (replicate n 0)"

text \<open>
  \<^verbatim>\<open>np.vstack\<close>: every operand is first made two-dimensional (a vector becomes
  one row), then the rows are stacked; operands whose column counts differ make
  numpy raise \<^verbatim>\<open>ValueError\<close>.
\<close>

fun atleast_2d :: "ndarray \<Rightarrow> nat \<times> real list list" where
  "atleast_2d (Arr1 xs) = (length xs, [xs])"
| "atleast_2d (Arr2 c rows) = (c, rows)"

definition vstack :: "ndarray \<Rightarrow> ndarray \<Rightarrow> ndarray \<Rightarrow> py_error + ndarray" where
  "vstack x y z =
     (let (cx, rx) = atleast_2d x; (cy, ry) = atleast_2d y; (cz, rz) = atleast_2d z
      in if cx = cy \<and> cy = cz then Inr (Arr2 cx (rx @ ry @ rz)) else Inl ValueError)"

subsection \<open>Formatting integers\<close>

text \<open>The format \<^verbatim>\<open>f'{n:d}'\<close>: the decimal digits, with a minus sign when negative.\<close>

definition digit_char :: "nat \<Rightarrow> char" where
  "digit_char n = ''0123456789'' ! n"

fun digits :: "nat \<Rightarrow> string" where
  "digits n = (if n < 10 then [digit_char n] else digits (n div 10) @ [digit_char (n mod 10)])"

declare digits.simps [simp del]

definition fmt_d :: "int \<Rightarrow> string" where
  "fmt_d i = (if i < 0 then CHR ''-'' # digits (nat (- i)) else digits (nat i))"

subsection \<open>The opened file\<close>

text \<open>
  \<^verbatim>\<open>self._data.variables\<close>, the netCDF variables of the file by key. A netCDF
  variable has a type, and the reader looks up character tables only under the
  five fixed keys of the name tables (through \<open>get_names\<close>) and numeric arrays
  only under other keys, so the model keeps the two kinds apart:
  \<open>char_variables\<close> holds each character table as the strings
  \<^verbatim>\<open>nc.chartostring\<close> decodes from its rows, \<open>variables\<close> holds each numeric
  variable as the array \<^verbatim>\<open>np.array\<close> makes of it. A variable of the other
  kind under a key is excluded by this typing.
\<close>

record dataset =
  char_variables :: "string \<rightharpoonup> string list"
  variables :: "string \<rightharpoonup> ndarray"

subsection \<open>Construction\<close>

text \<open>
  What \<^verbatim>\<open>__init__\<close> observes of its \<^verbatim>\<open>Path\<close> argument: \<^verbatim>\<open>is_file()\<close>,
  \<^verbatim>\<open>suffix\<close> and \<^verbatim>\<open>str()\<close>. \<^verbatim>\<open>nc.Dataset\<close> is the netCDF library's
  opening of a file, a parameter of the model.
\<close>

record path =
  is_file :: bool
  suffix :: string
  path_str :: string

definition ExodusReader_init :: "(string \<Rightarrow> py_error + dataset) \<Rightarrow> path \<Rightarrow> py_error + dataset" where
  "ExodusReader_init nc_Dataset exodus_file =
     (if \<not> is_file exodus_file \<and> suffix exodus_file \<noteq> ''.e'' then Inl FileNotFoundError
      else nc_Dataset (path_str exodus_file))"

subsection \<open>Names and numeric variables\<close>

text \<open>
  \<open>get_names\<close>: the key may be \<^verbatim>\<open>None\<close>, which is in no dataset.
\<close>

definition get_names :: "dataset \<Rightarrow> string option \<Rightarrow> string list option" where
  "get_names d key = (case key of None \<Rightarrow> None | Some k \<Rightarrow> char_variables d k)"

text \<open>
  \<open>get_var\<close>: an absent key gives \<^verbatim>\<open>np.array([])\<close>, the empty vector; a stored
  variable is returned transposed. \<open>get_sidesets\<close> passes a key that may be
  \<^verbatim>\<open>None\<close>, and \<^verbatim>\<open>None not in self._data.variables\<close> holds.
\<close>

definition get_var :: "dataset \<Rightarrow> string option \<Rightarrow> ndarray" where
  "get_var d key =
     (case key of
        None \<Rightarrow> Arr1 []
      | Some k \<Rightarrow> (case variables d k of None \<Rightarrow> Arr1 [] | Some a \<Rightarrow> transposed a))"

text \<open>
  \<^verbatim>\<open>np.where(all_names == name)[0]\<close>: the positions (from 0) at which the name
  occurs, in increasing order.
\<close>

definition np_where_eq :: "string list \<Rightarrow> string \<Rightarrow> nat list" where
  "np_where_eq all_names name = filter (\<lambda>i. all_names ! i = name) [0..<length all_names]"

text \<open>\<open>get_key\<close>: \<^verbatim>\<open>None\<close> when there is no position, else the tag and the first position plus one.\<close>

definition get_key :: "string \<Rightarrow> string list \<Rightarrow> string \<Rightarrow> string option" where
  "get_key name all_names key_tag =
     (case np_where_eq all_names name of
        [] \<Rightarrow> None
      | i # _ \<Rightarrow> Some (key_tag @ fmt_d (int i + 1)))"

subsection \<open>Connectivity\<close>

text \<open>
  \<open>get_num_elem_blocks\<close> takes \<^verbatim>\<open>.shape[0]\<close> of the block name table; when
  the file has no such table \<open>get_names\<close> gives \<^verbatim>\<open>None\<close>, which has no
  attribute \<^verbatim>\<open>shape\<close>.
\<close>

definition get_num_elem_blocks :: "dataset \<Rightarrow> py_error + nat" where
  "get_num_elem_blocks d =
     (case get_names d (Some ''eb_names'') of
        None \<Rightarrow> Inl AttributeError
      | Some names \<Rightarrow> Inr (length names))"

definition get_connectivity_names :: "dataset \<Rightarrow> py_error + string list" where
  "get_connectivity_names d =
     (case get_num_elem_blocks d of
        Inl e \<Rightarrow> Inl e
      | Inr n \<Rightarrow>
          Inr (filter (\<lambda>key. variables d key \<noteq> None)
                 (map (\<lambda>bb. ''connect'' @ fmt_d (int bb + 1)) [0..<n])))"

fun connect_loop :: "dataset \<Rightarrow> string list \<Rightarrow> (string \<rightharpoonup> ndarray) \<Rightarrow> (string \<rightharpoonup> ndarray)" where
  "connect_loop d [] connect = connect"
| "connect_loop d (key # keys) connect = connect_loop d keys (connect(key \<mapsto> get_var d (Some key)))"

definition get_connectivity :: "dataset \<Rightarrow> py_error + (string \<rightharpoonup> ndarray)" where
  "get_connectivity d =
     (case get_connectivity_names d of
        Inl e \<Rightarrow> Inl e
      | Inr names \<Rightarrow> Inr (connect_loop d names Map.empty))"

subsection \<open>Side sets\<close>

definition get_sideset_names :: "dataset \<Rightarrow> string list option" where
  "get_sideset_names d = get_names d (Some ''ss_names'')"

fun sidesets_loop ::
  "dataset \<Rightarrow> string list \<Rightarrow> string list \<Rightarrow> (string \<times> string \<rightharpoonup> ndarray) \<Rightarrow> (string \<times> string \<rightharpoonup> ndarray)" where
  "sidesets_loop d all_names [] side_sets = side_sets"
| "sidesets_loop d all_names (nn # names) side_sets =
     (let node_key = get_key nn all_names ''node_ns'';
          elem_key = get_key nn all_names ''elem_ss''
      in sidesets_loop d all_names names
           (side_sets((nn, ''node'') \<mapsto> get_var d node_key, (nn, ''elem'') \<mapsto> get_var d elem_key)))"

definition get_sidesets :: "dataset \<Rightarrow> string list option \<Rightarrow> (string \<times> string \<rightharpoonup> ndarray) option" where
  "get_sidesets d names =
     (case (names, get_sideset_names d) of
        (Some ns, Some all_names) \<Rightarrow> Some (sidesets_loop d all_names ns Map.empty)
      | _ \<Rightarrow> None)"

definition get_all_sidesets :: "dataset \<Rightarrow> (string \<times> string \<rightharpoonup> ndarray) option" where
  "get_all_sidesets d = get_sidesets d (get_sideset_names d)"

subsection \<open>Nodal variables\<close>

definition get_node_var_names :: "dataset \<Rightarrow> string list option" where
  "get_node_var_names d = get_names d (Some ''name_nod_var'')"

text \<open>
  \<open>get_node_vars\<close> does not check the name table before the loop: when the
  table is \<^verbatim>\<open>None\<close> the comparison \<^verbatim>\<open>all_names == nn\<close> is the scalar
  \<^verbatim>\<open>False\<close> and \<^verbatim>\<open>np.where\<close> finds no position. \<^verbatim>\<open>inds[0]\<close> on no
  positions raises \<^verbatim>\<open>IndexError\<close>.
\<close>

definition np_where_opt :: "string list option \<Rightarrow> string \<Rightarrow> nat list" where
  "np_where_opt all_names name =
     (case all_names of None \<Rightarrow> [] | Some ns \<Rightarrow> np_where_eq ns name)"

fun node_vars_loop ::
  "dataset \<Rightarrow> string list option \<Rightarrow> string list \<Rightarrow> (string \<rightharpoonup> ndarray) \<Rightarrow> py_error + (string \<rightharpoonup> ndarray)" where
  "node_vars_loop d all_names [] vars = Inr vars"
| "node_vars_loop d all_names (nn # names) vars =
     (case np_where_opt all_names nn of
        [] \<Rightarrow> Inl IndexError
      | i # _ \<Rightarrow>
          node_vars_loop d all_names names
            (vars(nn \<mapsto> get_var d (Some (''vals_nod_var'' @ fmt_d (int i + 1))))))"

definition get_node_vars :: "dataset \<Rightarrow> string list option \<Rightarrow> py_error + (string \<rightharpoonup> ndarray) option" where
  "get_node_vars d names =
     (case names of
        None \<Rightarrow> Inr None
      | Some ns \<Rightarrow> map_sum id Some (node_vars_loop d (get_node_var_names d) ns Map.empty))"

definition get_all_node_vars :: "dataset \<Rightarrow> py_error + (string \<rightharpoonup> ndarray) option" where
  "get_all_node_vars d = get_node_vars d (get_node_var_names d)"

subsection \<open>Elemental variables\<close>

definition get_elem_var_names :: "dataset \<Rightarrow> string list option" where
  "get_elem_var_names d = get_names d (Some ''name_elem_var'')"

text \<open>
  \<open>get_elem_var_names_and_blocks\<close>: the guard tests
  \<^verbatim>\<open>self.get_elem_var_names is None\<close>, the bound method itself, which is never
  \<^verbatim>\<open>None\<close>, and \<^verbatim>\<open>self.get_num_elem_blocks() is None\<close>, an integer whenever
  the call returns; so the guard only ever raises what \<open>get_num_elem_blocks\<close>
  raises. The loop then iterates over the name table, and iterating over
  \<^verbatim>\<open>None\<close> raises \<^verbatim>\<open>TypeError\<close>.
\<close>

definition get_elem_var_names_and_blocks :: "dataset \<Rightarrow> py_error + (string \<times> int) list option" where
  "get_elem_var_names_and_blocks d =
     (case get_num_elem_blocks d of
        Inl e \<Rightarrow> Inl e
      | Inr n \<Rightarrow>
          (let blocks = map (\<lambda>ii. int ii + 1) [0..<n]
           in case get_elem_var_names d of
                None \<Rightarrow> Inl TypeError
              | Some names \<Rightarrow> Inr (Some (concat (map (\<lambda>nn. map (\<lambda>bb. (nn, bb)) blocks) names)))))"

text \<open>
  \<open>get_elem_vars\<close>: the key is \<^verbatim>\<open>get_key(...) + f'eb{block:d}'\<close>, and adding a
  string to \<^verbatim>\<open>None\<close> raises \<^verbatim>\<open>TypeError\<close>.
\<close>

fun elem_vars_loop ::
  "dataset \<Rightarrow> string list \<Rightarrow> (string \<times> int) list \<Rightarrow> (string \<times> int \<rightharpoonup> ndarray)
     \<Rightarrow> py_error + (string \<times> int \<rightharpoonup> ndarray)" where
  "elem_vars_loop d all_names [] vars = Inr vars"
| "elem_vars_loop d all_names (nn # names_blocks) vars =
     (case get_key (fst nn) all_names ''vals_elem_var'' of
        None \<Rightarrow> Inl TypeError
      | Some k \<Rightarrow>
          elem_vars_loop d all_names names_blocks
            (vars(nn \<mapsto> get_var d (Some (k @ ''eb'' @ fmt_d (snd nn))))))"

definition get_elem_vars ::
  "dataset \<Rightarrow> (string \<times> int) list option \<Rightarrow> py_error + (string \<times> int \<rightharpoonup> ndarray) option" where
  "get_elem_vars d names_blocks =
     (case (get_elem_var_names d, names_blocks) of
        (Some all_names, Some nbs) \<Rightarrow> map_sum id Some (elem_vars_loop d all_names nbs Map.empty)
      | _ \<Rightarrow> Inr None)"

definition get_all_elem_vars :: "dataset \<Rightarrow> py_error + (string \<times> int \<rightharpoonup> ndarray) option" where
  "get_all_elem_vars d =
     (case get_elem_var_names_and_blocks d of
        Inl e \<Rightarrow> Inl e
      | Inr names_blocks \<Rightarrow> get_elem_vars d names_blocks)"

subsection \<open>Global variables\<close>

definition get_glob_var_names :: "dataset \<Rightarrow> string list option" where
  "get_glob_var_names d = get_names d (Some ''name_glo_var'')"

text \<open>
  \<^verbatim>\<open>self._data.variables[key][:,i]\<close>: column \<open>i\<close> of a two-dimensional
  variable; a vector has no second index and a column out of range does not
  exist, both \<^verbatim>\<open>IndexError\<close>.
\<close>

fun column :: "ndarray \<Rightarrow> nat \<Rightarrow> py_error + ndarray" where
  "column (Arr1 xs) i = Inl IndexError"
| "column (Arr2 c rows) i = (if i < c then Inr (Arr1 (map (\<lambda>r. r ! i) rows)) else Inl IndexError)"

text \<open>
  In \<^verbatim>\<open>self._data.variables[key][:,inds[0]]\<close> the variable is looked up first
  (\<^verbatim>\<open>KeyError\<close> when the file has no \<^verbatim>\<open>vals_glo_var\<close>), then \<^verbatim>\<open>inds[0]\<close>
  is evaluated, then the column is sliced.
\<close>

fun glob_vars_loop ::
  "dataset \<Rightarrow> string list \<Rightarrow> string list \<Rightarrow> (string \<rightharpoonup> ndarray) \<Rightarrow> py_error + (string \<rightharpoonup> ndarray)" where
  "glob_vars_loop d all_names [] glob_vars = Inr glob_vars"
| "glob_vars_loop d all_names (nn # names) glob_vars =
     (let inds = np_where_eq all_names nn
      in case variables d ''vals_glo_var'' of
           None \<Rightarrow> Inl KeyError
         | Some a \<Rightarrow>
             (case inds of
                [] \<Rightarrow> Inl IndexError
              | i # _ \<Rightarrow>
                  (case column a i of
                     Inl e \<Rightarrow> Inl e
                   | Inr col \<Rightarrow> glob_vars_loop d all_names names (glob_vars(nn \<mapsto> col)))))"

definition get_glob_vars :: "dataset \<Rightarrow> string list option \<Rightarrow> py_error + (string \<rightharpoonup> ndarray) option" where
  "get_glob_vars d names =
     (case (get_glob_var_names d, names) of
        (Some all_names, Some ns) \<Rightarrow> map_sum id Some (glob_vars_loop d all_names ns Map.empty)
      | _ \<Rightarrow> Inr None)"

definition get_all_glob_vars :: "dataset \<Rightarrow> py_error + (string \<rightharpoonup> ndarray) option" where
  "get_all_glob_vars d = get_glob_vars d (get_glob_var_names d)"

subsection \<open>Coordinates and time\<close>

definition expand_coord :: "ndarray \<Rightarrow> nat \<Rightarrow> ndarray" where
  "expand_coord coord n = (if shape0 coord = 0 then np_zeros n else coord)"

text \<open>
  \<open>get_coords\<close> also stores its result in \<^verbatim>\<open>self.coords\<close>, which nothing
  reads; the model returns the value only.
\<close>

definition get_coords :: "dataset \<Rightarrow> py_error + ndarray" where
  "get_coords d =
     (let x = get_var d (Some ''coordx'');
          y = get_var d (Some ''coordy'');
          z = get_var d (Some ''coordz'');
          num_coords = max (shape0 x) (max (shape0 y) (shape0 z))
      in if num_coords = 0 then Inl RuntimeError
         else (case vstack (expand_coord x num_coords) (expand_coord y num_coords)
                      (expand_coord z num_coords) of
                 Inl e \<Rightarrow> Inl e
               | Inr a \<Rightarrow> Inr (transposed a)))"

definition get_time :: "dataset \<Rightarrow> ndarray" where
  "get_time d = (case variables d ''time_whole'' of Some a \<Rightarrow> a | None \<Rightarrow> Arr1 [])"

subsection \<open>Reading a whole record\<close>

text \<open>
  Modelled from the spec: \<^verbatim>\<open>SimData\<close> and \<^verbatim>\<open>SimReadConfig\<close> are declared in
  \<^verbatim>\<open>mooseherder/simdata.py\<close>, which is not among the sources. The record has
  the seven fields the reader assigns; the mappings may be absent
  (\<^verbatim>\<open>None\<close>), as the data model of the spec has it. The configuration lists
  what to extract in each category, each list possibly absent.
\<close>

record SimData =
  time :: ndarray
  coords :: ndarray
  connect :: "(string \<rightharpoonup> ndarray) option"
  side_sets :: "(string \<times> string \<rightharpoonup> ndarray) option"
  node_vars :: "(string \<rightharpoonup> ndarray) option"
  elem_vars :: "(string \<times> int \<rightharpoonup> ndarray) option"
  glob_vars :: "(string \<rightharpoonup> ndarray) option"



definition read_all_sim_data :: "dataset \<Rightarrow> py_error + SimData" where
  "read_all_sim_data d =
     (case get_coords d of Inl e \<Rightarrow> Inl e | Inr c \<Rightarrow>
      case get_connectivity d of Inl e \<Rightarrow> Inl e | Inr cn \<Rightarrow>
      case get_all_node_vars d of Inl e \<Rightarrow> Inl e | Inr nv \<Rightarrow>
      case get_all_elem_vars d of Inl e \<Rightarrow> Inl e | Inr ev \<Rightarrow>
      case get_all_glob_vars d of Inl e \<Rightarrow> Inl e | Inr gv \<Rightarrow>
        Inr \<lparr>time = get_time d, coords = c, connect = Some cn,
             side_sets = get_all_sidesets d,
             node_vars = nv, elem_vars = ev, glob_vars = gv\<rparr>)"

subsection \<open>Example files\<close>

text \<open>
  A two-dimensional problem of two nodes and one element in one block, with one
  nodal, one elemental and one global variable over two time steps, and one
  side set.
\<close>

definition plate :: dataset where
  "plate =
     \<lparr>char_variables =
        [''eb_names'' \<mapsto> [''plate''],
         ''name_nod_var'' \<mapsto> [''disp_x''],
         ''name_elem_var'' \<mapsto> [''strain_xx''],
         ''name_glo_var'' \<mapsto> [''react_y''],
         ''ss_names'' \<mapsto> [''left'']],
      variables =
        [''coordx'' \<mapsto> Arr1 [0, 1],
         ''coordy'' \<mapsto> Arr1 [2, 3],
         ''time_whole'' \<mapsto> Arr1 [0, 1],
         ''connect1'' \<mapsto> Arr2 2 [[1, 2]],
         ''vals_nod_var1'' \<mapsto> Arr2 2 [[0, 0], [4, 5]],
         ''vals_elem_var1eb1'' \<mapsto> Arr2 1 [[6], [7]],
         ''vals_glo_var'' \<mapsto> Arr2 1 [[8], [9]],
         ''node_ns1'' \<mapsto> Arr1 [1],
         ''elem_ss1'' \<mapsto> Arr1 [1]]\<rparr>"

text \<open>The same problem when the simulation wrote no elemental variables.\<close>

definition plate_nodal :: dataset where
  "plate_nodal =
     \<lparr>char_variables =
        [''eb_names'' \<mapsto> [''plate''],
         ''name_nod_var'' \<mapsto> [''disp_x'']],
      variables =
        [''coordx'' \<mapsto> Arr1 [0, 1],
         ''coordy'' \<mapsto> Arr1 [2, 3],
         ''time_whole'' \<mapsto> Arr1 [0, 1],
         ''connect1'' \<mapsto> Arr2 2 [[1, 2]],
         ''vals_nod_var1'' \<mapsto> Arr2 2 [[0, 0], [4, 5]]]\<rparr>"

text \<open>A file whose x axis is stored but holds no node, and one of nodes only.\<close>

definition no_nodes :: dataset where
  "no_nodes = \<lparr>char_variables = Map.empty, variables = [''coordx'' \<mapsto> Arr1 []]\<rparr>"

definition no_nodes_y :: dataset where
  "no_nodes_y =
     \<lparr>char_variables = [''eb_names'' \<mapsto> []], variables = [''coordy'' \<mapsto> Arr1 []]\<rparr>"

definition points :: dataset where
  "points =
     \<lparr>char_variables = [''eb_names'' \<mapsto> [''cloud'']],
      variables = [''coordx'' \<mapsto> Arr1 [0, 1], ''time_whole'' \<mapsto> Arr1 [0]]\<rparr>"


text \<open>An Exodus file that exists under another of the usual extensions.\<close>

definition mesh_exo :: path where
  "mesh_exo = \<lparr>is_file = True, suffix = ''.exo'', path_str = ''out/mesh.exo''\<rparr>"

definition disk :: "string \<Rightarrow> py_error + dataset" where
  "disk p = (if p = ''out/mesh.exo'' then Inr plate else Inl FileNotFoundError)"

section \<open>Properties\<close>

subsection \<open>Positions of a name\<close>

lemma filter_upt_Cons:
  "filter P [0..<n] = i # rest \<Longrightarrow> i < n \<and> P i \<and> (\<forall>j<i. \<not> P j)"
proof (induction n arbitrary: rest)
  case 0
  then show ?case by simp
next
  case (Suc n)
  have unfold: "filter P [0..<Suc n] = filter P [0..<n] @ (if P n then [n] else [])"
    by simp
  show ?case
  proof (cases "filter P [0..<n]")
    case Nil
    then have none: "\<forall>j<n. \<not> P j"
      by (simp add: filter_empty_conv)
    from Suc.prems Nil have "P n \<and> i = n"
      unfolding unfold by (simp split: if_splits)
    with none show ?thesis by simp
  next
    case (Cons a as)
    from Suc.prems Cons have "a = i"
      unfolding unfold by simp
    with Cons have "filter P [0..<n] = i # as" by simp
    from Suc.IH [OF this] show ?thesis
      by (simp add: less_Suc_eq)
  qed
qed

lemma np_where_eq_Nil_iff: "np_where_eq all_names name = [] \<longleftrightarrow> name \<notin> set all_names"
proof -
  have "np_where_eq all_names name = [] \<longleftrightarrow> (\<forall>i<length all_names. all_names ! i \<noteq> name)"
    by (auto simp: np_where_eq_def filter_empty_conv)
  also have "\<dots> \<longleftrightarrow> name \<notin> set all_names"
    by (metis in_set_conv_nth)
  finally show ?thesis .
qed

lemma np_where_eq_Cons:
  assumes "np_where_eq all_names name = i # rest"
  shows "i < length all_names \<and> all_names ! i = name \<and> (\<forall>j<i. all_names ! j \<noteq> name)"
proof -
  from assms have "filter (\<lambda>i. all_names ! i = name) [0..<length all_names] = i # rest"
    by (simp only: np_where_eq_def)
  from filter_upt_Cons [OF this] show ?thesis .
qed

lemma get_key_None_iff: "get_key name all_names key_tag = None \<longleftrightarrow> name \<notin> set all_names"
proof (cases "np_where_eq all_names name")
  case Nil
  then show ?thesis
    using np_where_eq_Nil_iff [of all_names name] by (simp add: get_key_def)
next
  case (Cons i rest)
  then show ?thesis
    using np_where_eq_Nil_iff [of all_names name] by (simp add: get_key_def)
qed

subsection \<open>The resolver\<close>

text \<open>
  C6: for every list of declared names, every target name and every key tag,
  \<open>get_key\<close> returns the tag followed by the decimal of one plus the position
  of the first occurrence of the name when the name is in the list, and
  returns \<^verbatim>\<open>None\<close> (it cannot raise) when the name is not in the list.
\<close>

theorem get_key_first_occurrence:
  "(name \<in> set all_names \<longrightarrow>
      (\<exists>i<length all_names. all_names ! i = name \<and> (\<forall>j<i. all_names ! j \<noteq> name) \<and>
         get_key name all_names key_tag = Some (key_tag @ fmt_d (int i + 1)))) \<and>
   (name \<notin> set all_names \<longrightarrow> get_key name all_names key_tag = None)"
proof (intro conjI impI)
  assume "name \<in> set all_names"
  then have "np_where_eq all_names name \<noteq> []"
    by (simp add: np_where_eq_Nil_iff)
  then obtain i rest where w: "np_where_eq all_names name = i # rest"
    by (cases "np_where_eq all_names name") simp_all
  have key: "get_key name all_names key_tag = Some (key_tag @ fmt_d (int i + 1))"
    by (simp add: get_key_def w)
  from np_where_eq_Cons [OF w] key
  show "\<exists>i<length all_names. all_names ! i = name \<and> (\<forall>j<i. all_names ! j \<noteq> name) \<and>
         get_key name all_names key_tag = Some (key_tag @ fmt_d (int i + 1))"
    by blast
next
  assume "name \<notin> set all_names"
  then show "get_key name all_names key_tag = None"
    by (simp add: get_key_None_iff)
qed

lemmas fmt_simps = fmt_d_def digits.simps digit_char_def

theorem get_key_first_occurrence_witness:
  "''disp_y'' \<in> set [''disp_x'', ''disp_y'', ''disp_y''] \<and>
   get_key ''disp_y'' [''disp_x'', ''disp_y'', ''disp_y''] ''vals_nod_var'' = Some ''vals_nod_var2'' \<and>
   ''temp'' \<notin> set [''disp_x'', ''disp_y'', ''disp_y''] \<and>
   get_key ''temp'' [''disp_x'', ''disp_y'', ''disp_y''] ''vals_nod_var'' = None"
proof -
  have absent: "''temp'' \<notin> set [''disp_x'', ''disp_y'', ''disp_y'']" by simp
  from get_key_first_occurrence [of "''temp''" "[''disp_x'', ''disp_y'', ''disp_y'']" "''vals_nod_var''"] absent
  have none: "get_key ''temp'' [''disp_x'', ''disp_y'', ''disp_y''] ''vals_nod_var'' = None" by blast
  have "get_key ''disp_y'' [''disp_x'', ''disp_y'', ''disp_y''] ''vals_nod_var'' = Some ''vals_nod_var2''"
    by (simp add: get_key_def np_where_eq_def fmt_simps upt_rec)
  with none show ?thesis by simp
qed

subsection \<open>Time steps\<close>

text \<open>
  C10: for every file that has no \<^verbatim>\<open>time_whole\<close> variable \<open>get_time\<close> returns
  the empty vector, and for every file that has one it returns the stored
  array as it is; it cannot raise.
\<close>

theorem get_time_stored_or_empty:
  "(variables d ''time_whole'' = None \<longrightarrow> get_time d = Arr1 []) \<and>
   (\<forall>a. variables d ''time_whole'' = Some a \<longrightarrow> get_time d = a)"
  by (simp add: get_time_def)

theorem get_time_stored_or_empty_witness:
  "variables points ''time_whole'' = Some (Arr1 [0]) \<and> get_time points = Arr1 [0] \<and>
   variables no_nodes ''time_whole'' = None \<and> get_time no_nodes = Arr1 []"
  using get_time_stored_or_empty [of points] get_time_stored_or_empty [of no_nodes]
  by (simp add: points_def no_nodes_def)

subsection \<open>Side sets\<close>

lemma sidesets_loop_apply:
  "sidesets_loop d all_names names ss (n, kind) =
     (if n \<in> set names \<and> kind = ''node'' then Some (get_var d (get_key n all_names ''node_ns''))
      else if n \<in> set names \<and> kind = ''elem'' then Some (get_var d (get_key n all_names ''elem_ss''))
      else ss (n, kind))"
proof (induction names arbitrary: ss)
  case Nil
  show ?case by simp
next
  case (Cons nn names)
  show ?case
    by (simp add: Cons.IH Let_def)
qed

text \<open>
  C9: when the file has a side-set name table, every requested side-set name
  that is not in the table resolves to the key \<^verbatim>\<open>None\<close> for both tags,
  \<open>get_var\<close> of the key \<^verbatim>\<open>None\<close> is the empty vector, and \<open>get_sidesets\<close>
  returns (it cannot raise) a mapping that binds both \<open>(name, 'node')\<close> and
  \<open>(name, 'elem')\<close> to the empty vector.
\<close>

theorem get_sidesets_unknown_name:
  assumes "char_variables d ''ss_names'' = Some all_names"
    and "name \<in> set names"
    and "name \<notin> set all_names"
  shows "get_key name all_names ''node_ns'' = None \<and>
         get_key name all_names ''elem_ss'' = None \<and>
         get_var d None = Arr1 [] \<and>
         (\<exists>ss. get_sidesets d (Some names) = Some ss \<and>
            ss (name, ''node'') = Some (Arr1 []) \<and>
            ss (name, ''elem'') = Some (Arr1 []))"
proof -
  from assms(3) have keys:
    "get_key name all_names ''node_ns'' = None" "get_key name all_names ''elem_ss'' = None"
    by (simp_all add: get_key_None_iff)
  have empty: "get_var d None = Arr1 []"
    by (simp add: get_var_def)
  from assms(1) have
    "get_sidesets d (Some names) = Some (sidesets_loop d all_names names Map.empty)"
    by (simp add: get_sidesets_def get_sideset_names_def get_names_def)
  moreover from assms(2) keys empty have
    "sidesets_loop d all_names names Map.empty (name, ''node'') = Some (Arr1 [])"
    "sidesets_loop d all_names names Map.empty (name, ''elem'') = Some (Arr1 [])"
    by (simp_all add: sidesets_loop_apply)
  ultimately show ?thesis
    using keys empty by simp
qed

theorem get_sidesets_unknown_name_witness:
  "char_variables plate ''ss_names'' = Some [''left''] \<and>
   ''top'' \<in> set [''left'', ''top''] \<and> ''top'' \<notin> set [''left''] \<and>
   (\<exists>ss. get_sidesets plate (Some [''left'', ''top'']) = Some ss \<and>
      ss (''top'', ''node'') = Some (Arr1 []) \<and>
      ss (''top'', ''elem'') = Some (Arr1 []))"
proof -
  have tab: "char_variables plate ''ss_names'' = Some [''left'']"
    by (simp add: plate_def)
  have req: "''top'' \<in> set [''left'', ''top'']" and absent: "''top'' \<notin> set [''left'']"
    by simp_all
  from get_sidesets_unknown_name [OF tab req absent] tab req absent
  show ?thesis by blast
qed

subsection \<open>Elemental variables\<close>

lemma elem_vars_loop_declared:
  assumes "\<forall>p\<in>set names_blocks. fst p \<in> set all_names"
  shows "\<exists>vars. elem_vars_loop d all_names names_blocks acc = Inr vars \<and>
           (\<forall>p. vars p =
              (if p \<in> set names_blocks
               then Some (get_var d
                      (Some (the (get_key (fst p) all_names ''vals_elem_var'') @ ''eb'' @ fmt_d (snd p))))
               else acc p))"
  using assms
proof (induction names_blocks arbitrary: acc)
  case Nil
  show ?case by simp
next
  case (Cons nn names_blocks)
  from Cons.prems have "fst nn \<in> set all_names" by simp
  then obtain k where k: "get_key (fst nn) all_names ''vals_elem_var'' = Some k"
    using get_key_None_iff [of "fst nn" all_names "''vals_elem_var''"] by auto
  from Cons.prems have rest: "\<forall>p\<in>set names_blocks. fst p \<in> set all_names" by simp
  from Cons.IH [OF rest, of "acc(nn \<mapsto> get_var d (Some (k @ ''eb'' @ fmt_d (snd nn))))"]
  obtain vars where
    run: "elem_vars_loop d all_names names_blocks
            (acc(nn \<mapsto> get_var d (Some (k @ ''eb'' @ fmt_d (snd nn))))) = Inr vars"
    and look: "\<forall>p. vars p =
              (if p \<in> set names_blocks
               then Some (get_var d
                      (Some (the (get_key (fst p) all_names ''vals_elem_var'') @ ''eb'' @ fmt_d (snd p))))
               else (acc(nn \<mapsto> get_var d (Some (k @ ''eb'' @ fmt_d (snd nn))))) p)"
    by blast
  have "elem_vars_loop d all_names (nn # names_blocks) acc = Inr vars"
    using run by (simp add: k)
  moreover have "\<forall>p. vars p =
              (if p \<in> set (nn # names_blocks)
               then Some (get_var d
                      (Some (the (get_key (fst p) all_names ''vals_elem_var'') @ ''eb'' @ fmt_d (snd p))))
               else acc p)"
  proof
    fix p
    show "vars p =
              (if p \<in> set (nn # names_blocks)
               then Some (get_var d
                      (Some (the (get_key (fst p) all_names ''vals_elem_var'') @ ''eb'' @ fmt_d (snd p))))
               else acc p)"
    proof (cases "p = nn")
      case True
      with spec [OF look, of nn] k show ?thesis by simp
    next
      case False
      with spec [OF look, of p] show ?thesis by simp
    qed
  qed
  ultimately show ?case by blast
qed

text \<open>
  What \<open>get_elem_vars\<close> does when every requested name is declared in the
  elemental name table: a requested pair of a name and a block for which the
  file stores no variable (the key built from the name's position and the
  block is not in the file) is bound to the empty vector in the mapping
  returned.
\<close>

lemma elem_vars_unpopulated_block_declared:
  assumes "char_variables d ''name_elem_var'' = Some all_names"
    and "\<forall>p\<in>set names_blocks. fst p \<in> set all_names"
    and "(name, block) \<in> set names_blocks"
    and "get_key name all_names ''vals_elem_var'' = Some k"
    and "variables d (k @ ''eb'' @ fmt_d block) = None"
  shows "\<exists>vars. get_elem_vars d (Some names_blocks) = Inr (Some vars) \<and>
           vars (name, block) = Some (Arr1 [])"
proof -
  from elem_vars_loop_declared [OF assms(2), of d Map.empty]
  obtain vars where run: "elem_vars_loop d all_names names_blocks Map.empty = Inr vars"
    and look: "\<forall>p. vars p =
              (if p \<in> set names_blocks
               then Some (get_var d
                      (Some (the (get_key (fst p) all_names ''vals_elem_var'') @ ''eb'' @ fmt_d (snd p))))
               else None)"
    by blast
  from assms(1) run have "get_elem_vars d (Some names_blocks) = Inr (Some vars)"
    by (simp add: get_elem_vars_def get_elem_var_names_def get_names_def)
  moreover from spec [OF look, of "(name, block)"] assms(3,4,5)
  have "vars (name, block) = Some (Arr1 [])"
    by (simp add: get_var_def)
  ultimately show ?thesis by blast
qed

text \<open>
  C8: the claim is that a requested pair of a declared elemental name and a
  block for which the file stores no data is bound to an empty table in the
  mapping \<open>get_elem_vars\<close> returns, with the key present and no error
  raised. The file \<open>plate\<close> declares \<^verbatim>\<open>strain_xx\<close> and stores it for block 1
  only. Requested alone, the pair of \<^verbatim>\<open>strain_xx\<close> and block 0 is bound to the
  empty vector. Requested together with the undeclared name \<^verbatim>\<open>temp\<close>, the
  same pair is lost: the loop raises \<^verbatim>\<open>TypeError\<close> at the second pair, where
  it appends to the \<^verbatim>\<open>None\<close> that \<open>get_key\<close> returns, and no mapping is
  returned.
\<close>

theorem get_elem_vars_undeclared_companion_raises:
  "char_variables plate ''name_elem_var'' = Some [''strain_xx''] \<and>
   variables plate ''vals_elem_var1eb0'' = None \<and>
   get_elem_vars plate (Some [(''strain_xx'', 0)]) = Inr (Some [(''strain_xx'', 0) \<mapsto> Arr1 []]) \<and>
   get_elem_vars plate (Some [(''strain_xx'', 0), (''temp'', 1)]) = Inl TypeError"
  by (simp add: get_elem_vars_def get_elem_var_names_def get_names_def get_key_def
      np_where_eq_def get_var_def plate_def fmt_simps upt_rec)

subsection \<open>Requests for names the file does not declare\<close>

text \<open>
  C1: the claim is that a requested variable name absent from the name table
  of the file is bound to a missing-marker in the returned mapping, with no
  error raised. On the file \<open>plate\<close>, which declares the nodal variable
  \<^verbatim>\<open>disp_x\<close>, the elemental variable \<^verbatim>\<open>strain_xx\<close> and the global variable
  \<^verbatim>\<open>react_y\<close>, a request for \<^verbatim>\<open>temp\<close> makes \<open>get_node_vars\<close> and
  \<open>get_glob_vars\<close> raise \<^verbatim>\<open>IndexError\<close> (they index the first of no
  positions) and \<open>get_elem_vars\<close> raise \<^verbatim>\<open>TypeError\<close> (it appends to the
  \<^verbatim>\<open>None\<close> that \<open>get_key\<close> returns), while \<open>get_sidesets\<close> binds such a name
  to empty vectors.
\<close>

theorem requested_absent_name_raises:
  "get_node_vars plate (Some [''temp'']) = Inl IndexError \<and>
   get_glob_vars plate (Some [''temp'']) = Inl IndexError \<and>
   get_elem_vars plate (Some [(''temp'', 1)]) = Inl TypeError"
  by (simp add: get_node_vars_def get_glob_vars_def get_elem_vars_def get_node_var_names_def
      get_glob_var_names_def get_elem_var_names_def get_names_def np_where_opt_def
      np_where_eq_def get_key_def plate_def)

subsection \<open>Reading everything\<close>

text \<open>
  C2: the claim is that \<open>read_all_sim_data\<close> produces, for every valid file,
  a record whose keys are those of the name tables. On the file
  \<open>plate_nodal\<close>, which has coordinates, a block, connectivity and a nodal
  variable but no elemental name table, it raises \<^verbatim>\<open>TypeError\<close>:
  \<open>get_elem_var_names_and_blocks\<close> tests the method \<^verbatim>\<open>get_elem_var_names\<close>
  itself against \<^verbatim>\<open>None\<close> instead of its result, and then iterates over
  \<^verbatim>\<open>None\<close>.
\<close>

theorem read_all_without_elem_vars_raises:
  "char_variables plate_nodal ''name_elem_var'' = None \<and>
   read_all_sim_data plate_nodal = Inl TypeError"
  by (simp add: read_all_sim_data_def get_coords_def get_connectivity_def
      get_connectivity_names_def get_num_elem_blocks_def get_all_node_vars_def
      get_node_vars_def get_node_var_names_def get_all_elem_vars_def
      get_elem_var_names_and_blocks_def get_elem_var_names_def get_names_def
      get_var_def expand_coord_def np_zeros_def vstack_def np_where_opt_def np_where_eq_def
      plate_nodal_def fmt_simps upt_rec)

subsection \<open>Construction\<close>

text \<open>
  C4: the claim is that construction raises \<^verbatim>\<open>FileNotFoundError\<close> for every
  path that is not an existing file with the extension \<^verbatim>\<open>.e\<close>. The guard
  joins its two tests with \<^verbatim>\<open>and\<close>, so it raises only when both fail: for
  the existing file \<open>mesh_exo\<close>, of extension \<^verbatim>\<open>.exo\<close>, construction
  succeeds with the dataset the netCDF library opens.
\<close>

theorem init_accepts_other_suffix:
  "is_file mesh_exo \<and> suffix mesh_exo = ''.exo'' \<and> ExodusReader_init disk mesh_exo = Inr plate"
  by (simp add: ExodusReader_init_def mesh_exo_def disk_def)

subsection \<open>Coordinates\<close>

lemma vstack_not_runtime: "vstack x y z \<noteq> Inl RuntimeError"
  by (simp add: vstack_def split: prod.splits)

text \<open>
  C7, as amended: \<open>get_coords\<close> raises the \<^verbatim>\<open>RuntimeError\<close> of a problem
  without spatial dimension if and only if each of the three axes, as
  \<open>get_var\<close> returns it, has length zero; that is, each axis is absent from
  the file or stored with no entry. An axis of positive length rules the
  error out.
\<close>

theorem get_coords_no_dimension_iff:
  "get_coords d = Inl RuntimeError \<longleftrightarrow>
     shape0 (get_var d (Some ''coordx'')) = 0 \<and>
     shape0 (get_var d (Some ''coordy'')) = 0 \<and>
     shape0 (get_var d (Some ''coordz'')) = 0"
proof (cases "max (shape0 (get_var d (Some ''coordx'')))
               (max (shape0 (get_var d (Some ''coordy''))) (shape0 (get_var d (Some ''coordz'')))) = 0")
  case True
  then show ?thesis
    by (simp add: get_coords_def Let_def)
next
  case False
  then have "get_coords d \<noteq> Inl RuntimeError"
    by (auto simp: get_coords_def Let_def vstack_not_runtime split: sum.splits)
  with False show ?thesis by auto
qed

text \<open>
  The claim as stated fails on the file \<open>no_nodes\<close>: its x axis is present,
  of length zero, and \<open>get_coords\<close> raises the error.
\<close>

theorem get_coords_empty_axis_raises:
  "variables no_nodes ''coordx'' = Some (Arr1 []) \<and> get_coords no_nodes = Inl RuntimeError"
  by (simp add: no_nodes_def get_coords_def get_var_def)

text \<open>
  C3, as amended: when the three axes, as \<open>get_var\<close> returns them, are
  vectors, each empty (the axis is absent from the file, or stored with no
  entry) or of one common length \<open>n > 0\<close>, and at least one has that length,
  \<open>get_coords\<close> returns the table of \<open>n\<close> rows and three columns whose row
  \<open>i\<close> holds entry \<open>i\<close> of each axis, and zero in the column of every empty
  axis.
\<close>

theorem get_coords_table:
  assumes x: "get_var d (Some ''coordx'') = Arr1 xs"
    and y: "get_var d (Some ''coordy'') = Arr1 ys"
    and z: "get_var d (Some ''coordz'') = Arr1 zs"
    and n: "0 < n"
    and some: "length xs = n \<or> length ys = n \<or> length zs = n"
    and lx: "xs = [] \<or> length xs = n"
    and ly: "ys = [] \<or> length ys = n"
    and lz: "zs = [] \<or> length zs = n"
  shows "get_coords d =
           Inr (Arr2 3 (map (\<lambda>i. [if xs = [] then 0 else xs ! i,
                                  if ys = [] then 0 else ys ! i,
                                  if zs = [] then 0 else zs ! i]) [0..<n]))"
proof -
  define pad where "pad vs = (if vs = [] then replicate n 0 else vs)" for vs :: "real list"
  have ex: "expand_coord (Arr1 vs) n = Arr1 (pad vs)" for vs
    by (simp add: expand_coord_def np_zeros_def pad_def)
  have len: "length (pad xs) = n" "length (pad ys) = n" "length (pad zs) = n"
    using lx ly lz by (auto simp: pad_def)
  have mx: "max (length xs) (max (length ys) (length zs)) = n"
    using some lx ly lz by auto
  have ne: "xs \<noteq> [] \<or> ys \<noteq> [] \<or> zs \<noteq> []"
    using some n by auto
  have nth: "pad vs ! i = (if vs = [] then 0 else vs ! i)" if "i < n" for vs i
    using that by (simp add: pad_def)
  have "get_coords d = Inr (Arr2 3 (map (\<lambda>i. [pad xs ! i, pad ys ! i, pad zs ! i]) [0..<n]))"
    using n ne by (auto simp: get_coords_def x y z mx ex vstack_def len)
  also have "map (\<lambda>i. [pad xs ! i, pad ys ! i, pad zs ! i]) [0..<n] =
     map (\<lambda>i. [if xs = [] then 0 else xs ! i,
               if ys = [] then 0 else ys ! i,
               if zs = [] then 0 else zs ! i]) [0..<n]"
    by (rule map_cong) (simp_all add: nth)
  finally show ?thesis .
qed

theorem get_coords_table_witness:
  "variables plate ''coordz'' = None \<and>
   get_var plate (Some ''coordx'') = Arr1 [0, 1] \<and>
   get_var plate (Some ''coordy'') = Arr1 [2, 3] \<and>
   get_var plate (Some ''coordz'') = Arr1 [] \<and>
   get_coords plate = Inr (Arr2 3 [[0, 2, 0], [1, 3, 0]])"
proof -
  have x: "get_var plate (Some ''coordx'') = Arr1 [0, 1]"
    and y: "get_var plate (Some ''coordy'') = Arr1 [2, 3]"
    and z: "get_var plate (Some ''coordz'') = Arr1 []"
    and absent: "variables plate ''coordz'' = None"
    by (simp_all add: get_var_def plate_def)
  have "get_coords plate =
           Inr (Arr2 3 (map (\<lambda>i. [if [0, 1::real] = [] then 0 else [0, 1] ! i,
                                  if [2, 3::real] = [] then 0 else [2, 3] ! i,
                                  if ([]::real list) = [] then 0 else [] ! i]) [0..<2]))"
    by (rule get_coords_table [OF x y z]) simp_all
  then have "get_coords plate = Inr (Arr2 3 [[0, 2, 0], [1, 3, 0]])"
    by (simp add: upt_rec)
  with x y z absent show ?thesis by simp
qed

text \<open>
  The claim as stated fails on the file \<open>no_nodes_y\<close>: its y axis is present,
  of length zero, and \<open>get_coords\<close> returns no table but raises.
\<close>

theorem get_coords_empty_axis_no_table:
  "variables no_nodes_y ''coordy'' = Some (Arr1 []) \<and> get_coords no_nodes_y = Inl RuntimeError"
  by (simp add: no_nodes_y_def get_coords_def get_var_def)

subsection \<open>Connectivity\<close>






end
